theory Spec2Isabelle
  imports Complex_Main "HOL-Library.Word"
begin

section \<open>Values and errors of the host language\<close>

text \<open>
  The dashboard is one React component (\<^verbatim>\<open>src/App.js\<close>). Its numbers are JSON numbers;
  they are modelled as reals, on which the comparisons and \<^verbatim>\<open>Math.round\<close> of the
  source are exact. A leaf of a JSON array may also be \<^verbatim>\<open>null\<close>, and a read past the
  end of an array yields \<^verbatim>\<open>undefined\<close>.
\<close>

datatype jsval = JNum real | JNull | JUndefined

text \<open>The result of \<^verbatim>\<open>Math.round\<close>: an integral number, or NaN.\<close>

datatype jsnum = Num real | NaN

text \<open>
  What can be thrown inside \<^verbatim>\<open>fetchWeather\<close>: \<^verbatim>\<open>new Error(msg)\<close>, the rejection
  of a \<^verbatim>\<open>fetch\<close> whose transport failed, the TypeError of reading a property of
  \<^verbatim>\<open>undefined\<close>, and the URIError of \<^verbatim>\<open>encodeURIComponent\<close> on a lone surrogate.
\<close>

datatype js_error = Error string | FetchRejected | TypeError | URIError

section \<open>Geocoding candidates and the best match\<close>

record candidate =
  latitude :: real
  longitude :: real
  name :: string
  country :: "string option"
  feature_code :: "string option"

text \<open>
  \<^verbatim>\<open>geoData.results.find(r => r.feature_code === 'PPLC') ||
  geoData.results.find(r => r.feature_code === 'PPLA') || geoData.results[0]\<close>.
  \<^verbatim>\<open>Array.prototype.find\<close> is \<^const>\<open>List.find\<close>; a candidate is an object, hence truthy,
  so \<^verbatim>\<open>||\<close> falls through exactly when \<^verbatim>\<open>find\<close> gave \<^verbatim>\<open>undefined\<close>. The caller has
  already thrown on an empty list; \<^verbatim>\<open>results[0]\<close> of an empty list is \<^verbatim>\<open>undefined\<close>,
  which is \<^const>\<open>None\<close> here.
\<close>

definition bestMatch :: "candidate list \<Rightarrow> candidate option" where
  "bestMatch results =
     (case List.find (\<lambda>r. feature_code r = Some ''PPLC'') results of
        Some r \<Rightarrow> Some r
      | None \<Rightarrow>
          (case List.find (\<lambda>r. feature_code r = Some ''PPLA'') results of
             Some r \<Rightarrow> Some r
           | None \<Rightarrow> (case results of [] \<Rightarrow> None | r # _ \<Rightarrow> Some r)))"

section \<open>Weather codes, descriptions and categories\<close>

definition weatherCodes :: "(int \<times> string) list" where
  "weatherCodes =
     [(0, ''Clear sky''), (1, ''Mainly clear''), (2, ''Partly cloudy''), (3, ''Overcast''),
      (45, ''Foggy''), (48, ''Foggy''), (51, ''Light drizzle''), (53, ''Drizzle''),
      (55, ''Heavy drizzle''),
      (61, ''Light rain''), (63, ''Rain''), (65, ''Heavy rain''), (71, ''Light snow''),
      (73, ''Snow''), (75, ''Heavy snow''),
      (80, ''Light showers''), (81, ''Showers''), (82, ''Heavy showers''),
      (95, ''Thunderstorm'')]"

text \<open>\<^verbatim>\<open>weatherCodes[code] || 'Unknown'\<close>: a missing key and an empty string are falsy.\<close>

definition getWeatherDescription :: "int \<Rightarrow> string" where
  "getWeatherDescription code =
     (case map_of weatherCodes code of
        None \<Rightarrow> ''Unknown''
      | Some s \<Rightarrow> if s = [] then ''Unknown'' else s)"

text \<open>
  \<^verbatim>\<open>String.prototype.includes\<close>: does the pattern occur at some position of the string?
  The comparison is by code unit, hence case-sensitive.
\<close>

fun includes_str :: "string \<Rightarrow> string \<Rightarrow> bool" where
  "includes_str [] pat = (pat = [])"
| "includes_str (c # cs) pat = (take (length pat) (c # cs) = pat \<or> includes_str cs pat)"

text \<open>The \<^verbatim>\<open>main\<close> field of \<^verbatim>\<open>transformedData.weather[0]\<close>.\<close>

definition weather_main :: "string \<Rightarrow> string" where
  "weather_main weatherDesc =
     (if includes_str weatherDesc ''rain'' \<or> includes_str weatherDesc ''shower'' then ''Rain''
      else if includes_str weatherDesc ''cloud'' \<or> includes_str weatherDesc ''Overcast'' then ''Clouds''
      else ''Clear'')"

text \<open>\<^verbatim>\<open>String.prototype.toLowerCase\<close> on the ASCII letters the program's own strings use.\<close>

definition lower_char :: "char \<Rightarrow> char" where
  "lower_char c =
     (let n = (of_char c :: nat) in if 65 \<le> n \<and> n \<le> 90 then char_of (n + 32) else c)"

definition toLowerCase :: "string \<Rightarrow> string" where
  "toLowerCase s = map lower_char s"

section \<open>The weather payload and the view model\<close>

text \<open>
  The parsed body of the weather response. A block or an array that the body lacks is
  \<^const>\<open>None\<close>: reading a property of it throws.
\<close>

record current_block =
  temperature_2m :: real
  relative_humidity_2m :: real
  apparent_temperature :: real
  weather_code :: int
  wind_speed_10m :: real
  surface_pressure :: real

record hourly_block =
  time :: "string list option"
  temperature_2m_h :: "jsval list option"
  relative_humidity_2m_h :: "jsval list option"
  apparent_temperature_h :: "jsval list option"
  precipitation_probability :: "jsval list option"

record weather_payload =
  current :: "current_block option"
  hourly :: "hourly_block option"

text \<open>
  \<^verbatim>\<open>transformedData\<close>, flattened: \<^verbatim>\<open>name\<close>, \<^verbatim>\<open>main.temp\<close>, \<^verbatim>\<open>main.feels_like\<close>,
  \<^verbatim>\<open>main.humidity\<close>, \<^verbatim>\<open>main.pressure\<close>, \<^verbatim>\<open>weather[0].main\<close>,
  \<^verbatim>\<open>weather[0].description\<close>, \<^verbatim>\<open>wind.speed\<close>.
\<close>

record weather_view =
  name_v :: string
  temp :: real
  feels_like :: real
  humidity :: real
  pressure :: real
  main :: string
  description :: string
  speed :: real

text \<open>
  The division \<^verbatim>\<open>current.wind_speed_10m / 3.6\<close> is the division of the reals here; the
  source's is the IEEE-754 one.
\<close>

definition transformedData :: "candidate \<Rightarrow> current_block \<Rightarrow> weather_view" where
  "transformedData bm cur =
     (let weatherDesc = getWeatherDescription (weather_code cur) in
      \<lparr> name_v = name bm @
           (case country bm of
              None \<Rightarrow> []
            | Some c \<Rightarrow> if c = [] then [] else '', '' @ c),
        temp = temperature_2m cur,
        feels_like = apparent_temperature cur,
        humidity = relative_humidity_2m cur,
        pressure = surface_pressure cur,
        main = weather_main weatherDesc,
        description = toLowerCase weatherDesc,
        speed = wind_speed_10m cur / 3.6 \<rparr>)"

section \<open>The forecast window\<close>

record forecast_point =
  time_p :: string
  temp_p :: jsnum
  feels_like_p :: jsnum
  humidity_p :: jsval
  rain_p :: jsval

text \<open>\<^verbatim>\<open>xs[i]\<close> on an array: \<^verbatim>\<open>undefined\<close> past the end.\<close>

definition index_js :: "jsval list \<Rightarrow> nat \<Rightarrow> jsval" where
  "index_js xs i = (if i < length xs then xs ! i else JUndefined)"

text \<open>
  \<^verbatim>\<open>Math.round\<close>: the nearest integer, a tie going up; \<^verbatim>\<open>null\<close> converts to 0 and
  \<^verbatim>\<open>undefined\<close> to NaN.
\<close>

definition Math_round :: "jsval \<Rightarrow> jsnum" where
  "Math_round v =
     (case v of
        JNum x \<Rightarrow> Num (of_int \<lfloor>x + 1 / 2\<rfloor>)
      | JNull \<Rightarrow> Num 0
      | JUndefined \<Rightarrow> NaN)"

text \<open>\<^verbatim>\<open>v || 0\<close>: \<^verbatim>\<open>undefined\<close>, \<^verbatim>\<open>null\<close> and the number 0 are falsy.\<close>

definition or_zero :: "jsval \<Rightarrow> jsval" where
  "or_zero v =
     (case v of
        JNum x \<Rightarrow> if x = 0 then JNum 0 else JNum x
      | JNull \<Rightarrow> JNum 0
      | JUndefined \<Rightarrow> JNum 0)"

text \<open>
  The object pushed for index \<^verbatim>\<open>hour\<close>. The label is
  \<^verbatim>\<open>new Date(hourlyData.time[hour]).toLocaleTimeString('en-US', ...)\<close>; the formatting
  belongs to the runtime and is the parameter \<open>fmt\<close>. The caller has checked
  \<^verbatim>\<open>hour < hourlyData.time.length\<close>.
\<close>

definition forecast_point_at ::
  "(string \<Rightarrow> string) \<Rightarrow> string list \<Rightarrow> jsval list \<Rightarrow> jsval list \<Rightarrow> jsval list \<Rightarrow> jsval list
     \<Rightarrow> nat \<Rightarrow> forecast_point" where
  "forecast_point_at fmt ts tmp app hum pp hour =
     \<lparr> time_p = fmt (ts ! hour),
       temp_p = Math_round (index_js tmp hour),
       feels_like_p = Math_round (index_js app hour),
       humidity_p = index_js hum hour,
       rain_p = or_zero (index_js pp hour) \<rparr>"

text \<open>The object literal of the \<^verbatim>\<open>push\<close>: each array it reads must be there.\<close>

definition push_point ::
  "(string \<Rightarrow> string) \<Rightarrow> hourly_block \<Rightarrow> string list \<Rightarrow> nat \<Rightarrow> js_error + forecast_point" where
  "push_point fmt hourlyData ts hour =
     (case temperature_2m_h hourlyData of
        None \<Rightarrow> Inl TypeError
      | Some tmp \<Rightarrow>
     (case apparent_temperature_h hourlyData of
        None \<Rightarrow> Inl TypeError
      | Some app \<Rightarrow>
     (case relative_humidity_2m_h hourlyData of
        None \<Rightarrow> Inl TypeError
      | Some hum \<Rightarrow>
     (case precipitation_probability hourlyData of
        None \<Rightarrow> Inl TypeError
      | Some pp \<Rightarrow> Inr (forecast_point_at fmt ts tmp app hum pp hour)))))"

text \<open>
  \<^verbatim>\<open>for (let i = 0; i < 8; i++) { const hour = currentHour + i;
  if (hour < hourlyData.time.length) processedForecast.push({...}) }\<close>,
  entered with \<open>i = 0\<close> and the empty list.
\<close>

function forecast_loop ::
  "(string \<Rightarrow> string) \<Rightarrow> hourly_block \<Rightarrow> nat \<Rightarrow> nat \<Rightarrow> forecast_point list
     \<Rightarrow> js_error + forecast_point list" where
  "forecast_loop fmt hourlyData currentHour i processedForecast =
     (if i < 8 then
        (case time hourlyData of
           None \<Rightarrow> Inl TypeError
         | Some ts \<Rightarrow>
             if currentHour + i < length ts then
               (case push_point fmt hourlyData ts (currentHour + i) of
                  Inl e \<Rightarrow> Inl e
                | Inr p \<Rightarrow>
                    forecast_loop fmt hourlyData currentHour (Suc i) (processedForecast @ [p]))
             else forecast_loop fmt hourlyData currentHour (Suc i) processedForecast)
      else Inr processedForecast)"
  by pat_completeness auto
termination
  by (relation "measure (\<lambda>(fmt, hourlyData, currentHour, i, processedForecast). 8 - i)") auto

declare forecast_loop.simps [simp del]

section \<open>Recommendations\<close>

text \<open>
  \<^verbatim>\<open>getRecommendations\<close> reads the \<^verbatim>\<open>weatherData\<close> of the component's state. Each
  advisory of the source starts with a pictograph, left out of the strings here.
\<close>

definition warm_jacket :: string where
  "warm_jacket = ''Wear a warm jacket''"

definition light_jacket :: string where
  "light_jacket = ''Light jacket recommended''"

definition outdoor :: string where
  "outdoor = ''Perfect for outdoor activities''"

definition umbrella :: string where
  "umbrella = ''Don'' @ [CHR 0x27] @ ''t forget your umbrella''"

definition hydrated :: string where
  "hydrated = ''High humidity - stay hydrated''"

definition windy :: string where
  "windy = ''Windy conditions expected''"

definition getRecommendations :: "weather_view option \<Rightarrow> string list" where
  "getRecommendations weatherData =
     (case weatherData of
        None \<Rightarrow> []
      | Some w \<Rightarrow>
          (let condition = toLowerCase (main w) in
           (if temp w < 10 then [warm_jacket]
            else if temp w < 20 then [light_jacket]
            else [outdoor])
           @ (if includes_str condition ''rain'' then [umbrella] else [])
           @ (if humidity w > 70 then [hydrated] else [])
           @ (if speed w > 10 then [windy] else [])))"

section \<open>The component's state and its environment\<close>

text \<open>
  The text of the search box is a JavaScript string, a sequence of UTF-16 code units.
\<close>

type_synonym ustring = "16 word list"

text \<open>The six \<^verbatim>\<open>useState\<close> cells of \<^verbatim>\<open>WeatherAnalyticsApp\<close>.\<close>

record app_state =
  location :: string
  searchInput :: ustring
  weatherData :: "weather_view option"
  forecast :: "forecast_point list"
  loading :: bool
  error :: string

text \<open>
  A \<^verbatim>\<open>fetch\<close> either rejects (the transport failed) or resolves to a response with its
  \<^verbatim>\<open>ok\<close> flag and its body, taken as parsed JSON.
\<close>

datatype 'a response = Rejected | Response bool 'a

record geo_data =
  results :: "candidate list option"

datatype request = GeoRequest ustring | WeatherRequest real real

text \<open>
  What the run of \<^verbatim>\<open>fetchWeather\<close> meets outside the component: the two services, the
  hour of \<^verbatim>\<open>new Date().getHours()\<close>, and the runtime's \<^verbatim>\<open>toLocaleTimeString\<close>.
\<close>

record env =
  geocoding :: "ustring \<Rightarrow> geo_data response"
  weather_api :: "real \<Rightarrow> real \<Rightarrow> weather_payload response"
  getHours :: nat
  toLocaleTimeString :: "string \<Rightarrow> string"

text \<open>
  \<^verbatim>\<open>encodeURIComponent\<close> throws a URIError exactly on a string with a surrogate code unit
  that is not part of a pair.
\<close>

definition high_surrogate :: "16 word \<Rightarrow> bool" where
  "high_surrogate c = (0xD800 \<le> c \<and> c \<le> 0xDBFF)"

definition low_surrogate :: "16 word \<Rightarrow> bool" where
  "low_surrogate c = (0xDC00 \<le> c \<and> c \<le> 0xDFFF)"

fun well_formed :: "ustring \<Rightarrow> bool" where
  "well_formed [] = True"
| "well_formed [c] = (\<not> high_surrogate c \<and> \<not> low_surrogate c)"
| "well_formed (c # d # cs) =
     (if high_surrogate c then low_surrogate d \<and> well_formed cs
      else \<not> low_surrogate c \<and> well_formed (d # cs))"

text \<open>
  The body of the \<^verbatim>\<open>try\<close>: the state it leaves, the requests it sent, and what it
  threw, if anything. \<^verbatim>\<open>setWeatherData\<close> and \<^verbatim>\<open>setLocation\<close> run before the forecast
  is built, \<^verbatim>\<open>setForecast\<close> after.
\<close>

definition try_block ::
  "env \<Rightarrow> ustring \<Rightarrow> app_state \<Rightarrow> app_state \<times> request list \<times> js_error option" where
  "try_block e city st =
     (if \<not> well_formed city then (st, [], Some URIError)
      else
        (case geocoding e city of
           Rejected \<Rightarrow> (st, [GeoRequest city], Some FetchRejected)
         | Response ok geoData \<Rightarrow>
             if \<not> ok then (st, [GeoRequest city], Some (Error ''City not found''))
             else
               (case results geoData of
                  None \<Rightarrow> (st, [GeoRequest city], Some (Error ''City not found''))
                | Some rs \<Rightarrow>
                    if length rs = 0 then (st, [GeoRequest city], Some (Error ''City not found''))
                    else
                      (case bestMatch rs of
                         None \<Rightarrow> (st, [GeoRequest city], Some TypeError)
                       | Some bm \<Rightarrow>
                           (let reqs = [GeoRequest city, WeatherRequest (latitude bm) (longitude bm)] in
                            case weather_api e (latitude bm) (longitude bm) of
                              Rejected \<Rightarrow> (st, reqs, Some FetchRejected)
                            | Response wok wd \<Rightarrow>
                                if \<not> wok then
                                  (st, reqs, Some (Error ''Unable to fetch weather data''))
                                else
                                  (case current wd of
                                     None \<Rightarrow> (st, reqs, Some TypeError)
                                   | Some cur \<Rightarrow>
                                       (let td = transformedData bm cur;
                                            st' = st\<lparr>weatherData := Some td, location := name_v td\<rparr>
                                        in case hourly wd of
                                             None \<Rightarrow> (st', reqs, Some TypeError)
                                           | Some hourlyData \<Rightarrow>
                                               (case forecast_loop (toLocaleTimeString e) hourlyData
                                                       (getHours e) 0 [] of
                                                  Inl err \<Rightarrow> (st', reqs, Some err)
                                                | Inr pf \<Rightarrow> (st'\<lparr>forecast := pf\<rparr>, reqs, None)))))))))"

text \<open>
  What one call of \<^verbatim>\<open>fetchWeather\<close> leaves behind: the state, the requests sent, and
  the lines of \<^verbatim>\<open>console.error\<close>.
\<close>

record outcome =
  state :: app_state
  requests :: "request list"
  console :: "js_error list"

definition failure_message :: string where
  "failure_message = ''Unable to fetch weather data. Please try another city.''"

definition fetchWeather :: "env \<Rightarrow> ustring \<Rightarrow> app_state \<Rightarrow> outcome" where
  "fetchWeather e city st =
     (let st1 = st\<lparr>loading := True, error := []\<rparr>;
          (st2, reqs, thrown) = try_block e city st1;
          st3 = (case thrown of None \<Rightarrow> st2 | Some err \<Rightarrow> st2\<lparr>error := failure_message\<rparr>)
      in \<lparr> state = st3\<lparr>loading := False\<rparr>,
           requests = reqs,
           console = (case thrown of None \<Rightarrow> [] | Some err \<Rightarrow> [err]) \<rparr>)"

section \<open>Submitting the search box\<close>

text \<open>
  \<^verbatim>\<open>String.prototype.trim\<close> strips the WhiteSpace and LineTerminator code points from
  both ends; all of them are single code units.
\<close>

definition white_space :: "16 word \<Rightarrow> bool" where
  "white_space c =
     (c \<in> set [0x0009, 0x000A, 0x000B, 0x000C, 0x000D, 0x0020, 0x00A0, 0x1680,
                0x2028, 0x2029, 0x202F, 0x205F, 0x3000, 0xFEFF]
      \<or> (0x2000 \<le> c \<and> c \<le> 0x200A))"

definition trim :: "ustring \<Rightarrow> ustring" where
  "trim s = rev (dropWhile white_space (rev (dropWhile white_space s)))"

text \<open>
  \<^verbatim>\<open>if (searchInput.trim()) fetchWeather(searchInput.trim())\<close>: the empty string is
  falsy.
\<close>

definition handleSearch :: "env \<Rightarrow> app_state \<Rightarrow> outcome" where
  "handleSearch e st =
     (if trim (searchInput st) \<noteq> [] then fetchWeather e (trim (searchInput st)) st
      else \<lparr> state = st, requests = [], console = [] \<rparr>)"

section \<open>Sample inputs\<close>

text \<open>Three candidates for one name, the capital last.\<close>

definition paris :: "candidate list" where
  "paris =
     [\<lparr> latitude = 33.66, longitude = -95.55, name = ''Paris'', country = Some ''United States'',
        feature_code = Some ''PPLA2'' \<rparr>,
      \<lparr> latitude = 36.3, longitude = -88.32, name = ''Paris'', country = Some ''United States'',
        feature_code = Some ''PPLA'' \<rparr>,
      \<lparr> latitude = 48.85, longitude = 2.35, name = ''Paris'', country = Some ''France'',
        feature_code = Some ''PPLC'' \<rparr>]"

text \<open>
  Three hourly samples; one temperature is \<^verbatim>\<open>null\<close>, and the series of precipitation
  probabilities holds a \<^verbatim>\<open>null\<close> and is one entry short.
\<close>

definition sample_hourly :: hourly_block where
  "sample_hourly =
     \<lparr> time = Some [''2024-05-01T00:00'', ''2024-05-01T01:00'', ''2024-05-01T02:00''],
       temperature_2m_h = Some [JNum 11.5, JNum 12.4, JNull],
       relative_humidity_2m_h = Some [JNum 80, JNum 81, JNum 82],
       apparent_temperature_h = Some [JNum 9.5, JNum (- 0.5), JNum 10.5],
       precipitation_probability = Some [JNum 30, JNull] \<rparr>"

definition sample_forecast :: "forecast_point list" where
  "sample_forecast =
     [\<lparr> time_p = ''2024-05-01T01:00'', temp_p = Num 12, feels_like_p = Num 0,
        humidity_p = JNum 81, rain_p = JNum 0 \<rparr>,
      \<lparr> time_p = ''2024-05-01T02:00'', temp_p = Num 0, feels_like_p = Num 11,
        humidity_p = JNum 82, rain_p = JNum 0 \<rparr>]"

text \<open>An hourly block with no entries and no other series at all.\<close>

definition empty_hourly :: hourly_block where
  "empty_hourly =
     \<lparr> time = Some [], temperature_2m_h = None, relative_humidity_2m_h = None,
       apparent_temperature_h = None, precipitation_probability = None \<rparr>"

text \<open>Light rain, humid, with a wind of 40 km/h; and a warm, dry, calm day.\<close>

definition sample_current :: current_block where
  "sample_current =
     \<lparr> temperature_2m = 8.3, relative_humidity_2m = 80, apparent_temperature = 6.1,
       weather_code = 61, wind_speed_10m = 40, surface_pressure = 1012.4 \<rparr>"

text \<open>The same weather at 15 degrees with a wind of 20 km/h, which is below 10 m/s.\<close>

definition breezy_current :: current_block where
  "breezy_current =
     \<lparr> temperature_2m = 15, relative_humidity_2m = 80, apparent_temperature = 14,
       weather_code = 61, wind_speed_10m = 20, surface_pressure = 1012.4 \<rparr>"

definition fair_view :: weather_view where
  "fair_view =
     \<lparr> name_v = ''Lisbon, Portugal'', temp = 25, feels_like = 26, humidity = 50,
       pressure = 1018, main = ''Clear'', description = ''clear sky'', speed = 2 \<rparr>"

text \<open>
  States of the component: the one it starts in, and one that shows a place, its weather
  and a forecast, with a padded name in the search box.
\<close>

definition st0 :: app_state where
  "st0 = \<lparr> location = [], searchInput = [], weatherData = None, forecast = [],
           loading = False, error = [] \<rparr>"

definition padded_oslo :: ustring where
  "padded_oslo = [0x20, 0x09, 0x4F, 0x73, 0x6C, 0x6F, 0xA0, 0x20]"

definition oslo :: ustring where
  "oslo = [0x4F, 0x73, 0x6C, 0x6F]"

definition shown_state :: app_state where
  "shown_state = \<lparr> location = ''Lisbon, Portugal'', searchInput = padded_oslo,
           weatherData = Some fair_view, forecast = sample_forecast,
           loading = False, error = [] \<rparr>"

definition blank_state :: app_state where
  "blank_state = shown_state \<lparr> searchInput := [0x20, 0x09, 0x3000] \<rparr>"

text \<open>
  Environments: no network at all; a geocoder that knows no such place; a weather service
  that answers with an error status; a weather service whose body lacks the hourly block.
\<close>

definition offline_env :: env where
  "offline_env = \<lparr> geocoding = (\<lambda>city. Rejected), weather_api = (\<lambda>lat lon. Rejected),
           getHours = 1, toLocaleTimeString = (\<lambda>s. s) \<rparr>"

definition no_match_env :: env where
  "no_match_env = offline_env \<lparr> geocoding := (\<lambda>city. Response True \<lparr> results = None \<rparr>) \<rparr>"

definition weather_down_env :: env where
  "weather_down_env =
     \<lparr> geocoding = (\<lambda>city. Response True \<lparr> results = Some paris \<rparr>),
       weather_api = (\<lambda>lat lon. Response False \<lparr> current = None, hourly = None \<rparr>),
       getHours = 1, toLocaleTimeString = (\<lambda>s. s) \<rparr>"

definition no_hourly_env :: env where
  "no_hourly_env =
     weather_down_env
       \<lparr> weather_api :=
           (\<lambda>lat lon. Response True \<lparr> current = Some sample_current, hourly = None \<rparr>) \<rparr>"

definition weather_unreachable_env :: env where
  "weather_unreachable_env = weather_down_env \<lparr> weather_api := (\<lambda>lat lon. Rejected) \<rparr>"

section \<open>The best match\<close>

text \<open>
  C1. On a non-empty candidate list the geocoder selects the first candidate whose feature
  code is that of a capital (\<^verbatim>\<open>PPLC\<close>); if there is none, the first whose feature code is
  that of a primary administrative city (\<^verbatim>\<open>PPLA\<close>); if there is none either, the first
  candidate of the list. The position of the capital or the city in the list plays no role.
\<close>

theorem bestMatch_preference:
  assumes "rs \<noteq> []"
  shows "\<exists>i<length rs. bestMatch rs = Some (rs ! i) \<and>
     (if \<exists>r\<in>set rs. feature_code r = Some ''PPLC''
      then feature_code (rs ! i) = Some ''PPLC'' \<and>
           (\<forall>j<i. feature_code (rs ! j) \<noteq> Some ''PPLC'')
      else if \<exists>r\<in>set rs. feature_code r = Some ''PPLA''
      then feature_code (rs ! i) = Some ''PPLA'' \<and>
           (\<forall>j<i. feature_code (rs ! j) \<noteq> Some ''PPLA'')
      else i = 0)"
proof (cases "List.find (\<lambda>r. feature_code r = Some ''PPLC'') rs")
  case (Some c)
  then obtain i where i: "i < length rs" "feature_code (rs ! i) = Some ''PPLC''"
      "c = rs ! i" "\<forall>j<i. feature_code (rs ! j) \<noteq> Some ''PPLC''"
    unfolding find_Some_iff by blast
  have "\<exists>r\<in>set rs. feature_code r = Some ''PPLC''"
    using i(1,2) nth_mem by blast
  with Some i show ?thesis
    unfolding bestMatch_def by auto
next
  case noC: None
  then have nc: "\<not> (\<exists>r\<in>set rs. feature_code r = Some ''PPLC'')"
    unfolding find_None_iff by blast
  show ?thesis
  proof (cases "List.find (\<lambda>r. feature_code r = Some ''PPLA'') rs")
    case (Some c)
    then obtain i where i: "i < length rs" "feature_code (rs ! i) = Some ''PPLA''"
        "c = rs ! i" "\<forall>j<i. feature_code (rs ! j) \<noteq> Some ''PPLA''"
      unfolding find_Some_iff by blast
    have "\<exists>r\<in>set rs. feature_code r = Some ''PPLA''"
      using i(1,2) nth_mem by blast
    with Some noC nc i show ?thesis
      unfolding bestMatch_def by auto
  next
    case None
    then have na: "\<not> (\<exists>r\<in>set rs. feature_code r = Some ''PPLA'')"
      unfolding find_None_iff by blast
    from assms obtain r0 rest where "rs = r0 # rest" by (cases rs) auto
    with None noC nc na show ?thesis
      unfolding bestMatch_def by auto
  qed
qed

theorem bestMatch_preference_witness:
  "paris \<noteq> [] \<and>
   (\<exists>i<length paris. bestMatch paris = Some (paris ! i) \<and>
      feature_code (paris ! i) = Some ''PPLC'')"
proof -
  have ne: "paris \<noteq> []" by (simp add: paris_def)
  have cap: "\<exists>r\<in>set paris. feature_code r = Some ''PPLC''" by (simp add: paris_def)
  from bestMatch_preference [OF ne] cap
  have "\<exists>i<length paris. bestMatch paris = Some (paris ! i) \<and>
      feature_code (paris ! i) = Some ''PPLC''"
    by (metis (no_types, lifting))
  with ne show ?thesis by blast
qed

section \<open>Weather codes\<close>

text \<open>
  C2. The table of weather codes is total on the integers: each documented code has its
  listed description (0 Clear sky, 1 Mainly clear, 2 Partly cloudy, 3 Overcast, 45 and 48
  Foggy, 51/53/55 the drizzle tiers, 61/63/65 the rain tiers, 71/73/75 the snow tiers,
  80/81/82 the shower tiers, 95 Thunderstorm), and every other integer gives Unknown.
\<close>

theorem getWeatherDescription_table:
  "getWeatherDescription 0 = ''Clear sky'' \<and> getWeatherDescription 1 = ''Mainly clear'' \<and>
   getWeatherDescription 2 = ''Partly cloudy'' \<and> getWeatherDescription 3 = ''Overcast'' \<and>
   getWeatherDescription 45 = ''Foggy'' \<and> getWeatherDescription 48 = ''Foggy'' \<and>
   getWeatherDescription 51 = ''Light drizzle'' \<and> getWeatherDescription 53 = ''Drizzle'' \<and>
   getWeatherDescription 55 = ''Heavy drizzle'' \<and>
   getWeatherDescription 61 = ''Light rain'' \<and> getWeatherDescription 63 = ''Rain'' \<and>
   getWeatherDescription 65 = ''Heavy rain'' \<and>
   getWeatherDescription 71 = ''Light snow'' \<and> getWeatherDescription 73 = ''Snow'' \<and>
   getWeatherDescription 75 = ''Heavy snow'' \<and>
   getWeatherDescription 80 = ''Light showers'' \<and> getWeatherDescription 81 = ''Showers'' \<and>
   getWeatherDescription 82 = ''Heavy showers'' \<and>
   getWeatherDescription 95 = ''Thunderstorm'' \<and>
   (\<forall>code. code \<notin> {0, 1, 2, 3, 45, 48, 51, 53, 55, 61, 63, 65, 71, 73, 75, 80, 81, 82, 95}
      \<longrightarrow> getWeatherDescription code = ''Unknown'')"
  by (simp add: getWeatherDescription_def weatherCodes_def)

theorem getWeatherDescription_table_witness:
  "(96::int) \<notin> {0, 1, 2, 3, 45, 48, 51, 53, 55, 61, 63, 65, 71, 73, 75, 80, 81, 82, 95} \<and>
   getWeatherDescription 96 = ''Unknown'' \<and> getWeatherDescription (- 1) = ''Unknown''"
proof -
  from getWeatherDescription_table
  have other: "\<forall>code. code \<notin> {0, 1, 2, 3, 45, 48, 51, 53, 55, 61, 63, 65, 71, 73, 75, 80, 81, 82, 95}
      \<longrightarrow> getWeatherDescription code = ''Unknown''"
    by blast
  have a: "(96::int) \<notin> {0, 1, 2, 3, 45, 48, 51, 53, 55, 61, 63, 65, 71, 73, 75, 80, 81, 82, 95}"
    by simp
  have b: "(- 1::int) \<notin> {0, 1, 2, 3, 45, 48, 51, 53, 55, 61, 63, 65, 71, 73, 75, 80, 81, 82, 95}"
    by simp
  from other a b show ?thesis by blast
qed

section \<open>The condition category\<close>

text \<open>\<^const>\<open>includes_str\<close> is the occurrence of the pattern as a contiguous part.\<close>

lemma includes_str_iff:
  "includes_str s pat \<longleftrightarrow> (\<exists>pre suf. s = pre @ pat @ suf)"
proof (induction s)
  case Nil
  then show ?case by auto
next
  case (Cons c cs)
  have pre: "take (length pat) (c # cs) = pat \<longleftrightarrow> (\<exists>suf. c # cs = pat @ suf)"
    by (metis append_eq_conv_conj append_take_drop_id)
  show ?case
  proof
    assume "includes_str (c # cs) pat"
    then consider "take (length pat) (c # cs) = pat" | "includes_str cs pat" by auto
    then show "\<exists>pre suf. c # cs = pre @ pat @ suf"
    proof cases
      case 1
      with pre obtain suf where "c # cs = [] @ pat @ suf" by auto
      then show ?thesis by blast
    next
      case 2
      with Cons.IH obtain p suf where "cs = p @ pat @ suf" by blast
      then have "c # cs = (c # p) @ pat @ suf" by simp
      then show ?thesis by blast
    qed
  next
    assume "\<exists>pre suf. c # cs = pre @ pat @ suf"
    then obtain p suf where ps: "c # cs = p @ pat @ suf" by blast
    show "includes_str (c # cs) pat"
    proof (cases p)
      case Nil
      with ps have "\<exists>suf. c # cs = pat @ suf" by auto
      with pre have "take (length pat) (c # cs) = pat" by blast
      then show ?thesis by simp
    next
      case (Cons a p')
      with ps have "cs = p' @ pat @ suf" by simp
      with Cons.IH show ?thesis by auto
    qed
  qed
qed

text \<open>
  C3, as stated, fails: the descriptions of the drizzle codes 51, 53, 55 contain neither
  \<^verbatim>\<open>rain\<close> nor \<^verbatim>\<open>shower\<close>, and those of 63 (\<^verbatim>\<open>Rain\<close>) and 81 (\<^verbatim>\<open>Showers\<close>) contain them
  only with a capital letter, which the case-sensitive test does not match. All five
  codes get the category Clear.
\<close>

theorem rain_family_category_counterexample:
  "weather_main (getWeatherDescription 51) = ''Clear'' \<and>
   weather_main (getWeatherDescription 53) = ''Clear'' \<and>
   weather_main (getWeatherDescription 55) = ''Clear'' \<and>
   weather_main (getWeatherDescription 63) = ''Clear'' \<and>
   weather_main (getWeatherDescription 81) = ''Clear'' \<and>
   weather_main (getWeatherDescription 51) \<noteq> ''Rain'' \<and>
   weather_main (getWeatherDescription 53) \<noteq> ''Rain'' \<and>
   weather_main (getWeatherDescription 55) \<noteq> ''Rain'' \<and>
   weather_main (getWeatherDescription 63) \<noteq> ''Rain'' \<and>
   weather_main (getWeatherDescription 81) \<noteq> ''Rain''"
  by (simp add: weather_main_def getWeatherDescription_def weatherCodes_def)

text \<open>
  C3, amended. The category is derived from the description text by the substring rule, in
  this order: a description in which \<^verbatim>\<open>rain\<close> or \<^verbatim>\<open>shower\<close> occurs (as written, in lower
  case) gives Rain; else one in which \<^verbatim>\<open>cloud\<close> or \<^verbatim>\<open>Overcast\<close> occurs gives Clouds; else
  Clear. In particular the codes 61, 65, 80 and 82 give Rain, and the drizzle codes 51, 53
  and 55 give Clear.
\<close>

theorem weather_main_substring_rule:
  "weather_main weatherDesc =
     (if (\<exists>pre suf. weatherDesc = pre @ ''rain'' @ suf) \<or>
         (\<exists>pre suf. weatherDesc = pre @ ''shower'' @ suf) then ''Rain''
      else if (\<exists>pre suf. weatherDesc = pre @ ''cloud'' @ suf) \<or>
              (\<exists>pre suf. weatherDesc = pre @ ''Overcast'' @ suf) then ''Clouds''
      else ''Clear'') \<and>
   (code \<in> {61, 65, 80, 82} \<longrightarrow> weather_main (getWeatherDescription code) = ''Rain'') \<and>
   (code \<in> {51, 53, 55} \<longrightarrow> weather_main (getWeatherDescription code) = ''Clear'')"
proof -
  have rule: "weather_main weatherDesc =
     (if (\<exists>pre suf. weatherDesc = pre @ ''rain'' @ suf) \<or>
         (\<exists>pre suf. weatherDesc = pre @ ''shower'' @ suf) then ''Rain''
      else if (\<exists>pre suf. weatherDesc = pre @ ''cloud'' @ suf) \<or>
              (\<exists>pre suf. weatherDesc = pre @ ''Overcast'' @ suf) then ''Clouds''
      else ''Clear'')"
    unfolding weather_main_def includes_str_iff by (rule refl)
  have rain: "code \<in> {61, 65, 80, 82} \<longrightarrow> weather_main (getWeatherDescription code) = ''Rain''"
    by (auto simp add: weather_main_def getWeatherDescription_def weatherCodes_def)
  have drizzle: "code \<in> {51, 53, 55} \<longrightarrow> weather_main (getWeatherDescription code) = ''Clear''"
    by (auto simp add: weather_main_def getWeatherDescription_def weatherCodes_def)
  from rule rain drizzle show ?thesis by blast
qed

theorem weather_main_substring_rule_witness:
  "(61::int) \<in> {61, 65, 80, 82} \<and> weather_main (getWeatherDescription 61) = ''Rain'' \<and>
   (\<exists>pre suf. getWeatherDescription 61 = pre @ ''rain'' @ suf)"
proof -
  have d: "getWeatherDescription 61 = ''Light '' @ ''rain'' @ []"
    by (simp add: getWeatherDescription_def weatherCodes_def)
  have "(61::int) \<in> {61, 65, 80, 82} \<longrightarrow> weather_main (getWeatherDescription 61) = ''Rain''"
    by (rule weather_main_substring_rule
          [of "getWeatherDescription 61" 61, THEN conjunct2, THEN conjunct1])
  then have "weather_main (getWeatherDescription 61) = ''Rain''" by simp
  with d show ?thesis by blast
qed

section \<open>The forecast window\<close>

lemma push_point_present:
  assumes "temperature_2m_h hb = Some tmp" and "apparent_temperature_h hb = Some app"
    and "relative_humidity_2m_h hb = Some hum" and "precipitation_probability hb = Some pp"
  shows "push_point fmt hb ts hour = Inr (forecast_point_at fmt ts tmp app hum pp hour)"
  using assms by (simp add: push_point_def)

lemma push_point_Inr:
  assumes "push_point fmt hb ts hour = Inr p"
  shows "\<exists>tmp app hum pp. temperature_2m_h hb = Some tmp \<and> apparent_temperature_h hb = Some app \<and>
     relative_humidity_2m_h hb = Some hum \<and> precipitation_probability hb = Some pp \<and>
     p = forecast_point_at fmt ts tmp app hum pp hour"
  using assms by (auto simp add: push_point_def split: option.splits)

text \<open>Once the index has left the series, the loop adds nothing and reads nothing.\<close>

lemma forecast_loop_exhausted:
  assumes "time hb = Some ts" and "length ts \<le> h + i"
  shows "forecast_loop fmt hb h i acc = Inr acc"
  using assms
proof (induction fmt hb h i acc rule: forecast_loop.induct)
  case (1 fmt hb h i acc)
  show ?case
  proof (cases "i < 8")
    case True
    with 1 show ?thesis
      by (subst forecast_loop.simps) simp
  next
    case False
    then show ?thesis by (subst forecast_loop.simps) simp
  qed
qed

text \<open>The loop invariant: entered at \<open>i\<close>, the loop appends the samples from \<open>h + i\<close> on.\<close>

lemma forecast_loop_window:
  assumes "time hb = Some ts"
    and "temperature_2m_h hb = Some tmp" and "apparent_temperature_h hb = Some app"
    and "relative_humidity_2m_h hb = Some hum" and "precipitation_probability hb = Some pp"
    and "i \<le> 8"
  shows "forecast_loop fmt hb h i acc =
     Inr (acc @ map (forecast_point_at fmt ts tmp app hum pp) [h + i ..< min (h + 8) (length ts)])"
  using assms
proof (induction fmt hb h i acc rule: forecast_loop.induct)
  case (1 fmt hb h i acc)
  note pres = push_point_present [OF "1.prems"(2-5)]
  show ?case
  proof (cases "i < 8")
    case False
    with "1.prems" have "i = 8" by simp
    then show ?thesis by (subst forecast_loop.simps) simp
  next
    case lt: True
    show ?thesis
    proof (cases "h + i < length ts")
      case True
      let ?p = "forecast_point_at fmt ts tmp app hum pp (h + i)"
      have step: "forecast_loop fmt hb h i acc = forecast_loop fmt hb h (Suc i) (acc @ [?p])"
        using lt True "1.prems"(1) pres by (subst forecast_loop.simps) simp
      have ih: "forecast_loop fmt hb h (Suc i) (acc @ [?p]) =
          Inr ((acc @ [?p]) @
               map (forecast_point_at fmt ts tmp app hum pp) [h + Suc i ..< min (h + 8) (length ts)])"
        using lt True "1.prems" pres by (intro "1.IH"(1)) auto
      have "[h + i ..< min (h + 8) (length ts)] = (h + i) # [h + Suc i ..< min (h + 8) (length ts)]"
        using lt True by (simp add: upt_conv_Cons)
      with step ih show ?thesis by simp
    next
      case False
      then have "forecast_loop fmt hb h i acc = Inr acc"
        using "1.prems"(1) by (intro forecast_loop_exhausted) auto
      with False show ?thesis by simp
    qed
  qed
qed

lemma window_nth:
  assumes "k < min (h + 8) L - h"
  shows "[h ..< min (h + 8) L] ! k = h + (k::nat)"
  using assms by (intro nth_upt) arith

lemma forecast_loop_no_time:
  assumes "time hb = None"
  shows "forecast_loop fmt hb h 0 acc = Inl TypeError"
  using assms by (subst forecast_loop.simps) simp

lemma forecast_loop_push_fails:
  assumes "time hb = Some ts" and "h < length ts" and "push_point fmt hb ts h = Inl e"
  shows "forecast_loop fmt hb h 0 acc = Inl e"
  using assms by (subst forecast_loop.simps) simp

text \<open>What a successful run of the loop says about the block it read.\<close>

lemma forecast_loop_Inr:
  assumes "forecast_loop fmt hb h 0 [] = Inr pf"
  shows "\<exists>ts. time hb = Some ts \<and>
     (if h < length ts
      then \<exists>tmp app hum pp. temperature_2m_h hb = Some tmp \<and> apparent_temperature_h hb = Some app \<and>
             relative_humidity_2m_h hb = Some hum \<and> precipitation_probability hb = Some pp \<and>
             pf = map (forecast_point_at fmt ts tmp app hum pp) [h ..< min (h + 8) (length ts)]
      else pf = [])"
proof (cases "time hb")
  case None
  with assms forecast_loop_no_time [of hb fmt h "[]"] show ?thesis by simp
next
  case (Some ts)
  show ?thesis
  proof (cases "h < length ts")
    case False
    with Some have "forecast_loop fmt hb h 0 [] = Inr []"
      by (intro forecast_loop_exhausted) auto
    with assms Some False show ?thesis by simp
  next
    case True
    show ?thesis
    proof (cases "push_point fmt hb ts h")
      case (Inl e)
      with assms Some True forecast_loop_push_fails [of hb ts h fmt e "[]"] show ?thesis by simp
    next
      case (Inr p)
      then obtain tmp app hum pp where arrays: "temperature_2m_h hb = Some tmp"
          "apparent_temperature_h hb = Some app" "relative_humidity_2m_h hb = Some hum"
          "precipitation_probability hb = Some pp"
        using push_point_Inr by blast
      from forecast_loop_window [OF Some arrays, of 0 fmt h "[]"] assms
      have "pf = map (forecast_point_at fmt ts tmp app hum pp) [h ..< min (h + 8) (length ts)]"
        by simp
      with Some True arrays show ?thesis by simp
    qed
  qed
qed

text \<open>The loop on the sample block, from the hour 1.\<close>

lemma sample_forecast_run: "forecast_loop (\<lambda>s. s) sample_hourly 1 0 [] = Inr sample_forecast"
proof -
  have t: "time sample_hourly = Some [''2024-05-01T00:00'', ''2024-05-01T01:00'', ''2024-05-01T02:00'']"
    and a: "temperature_2m_h sample_hourly = Some [JNum 11.5, JNum 12.4, JNull]"
    and b: "apparent_temperature_h sample_hourly = Some [JNum 9.5, JNum (- 0.5), JNum 10.5]"
    and c: "relative_humidity_2m_h sample_hourly = Some [JNum 80, JNum 81, JNum 82]"
    and d: "precipitation_probability sample_hourly = Some [JNum 30, JNull]"
    by (simp_all add: sample_hourly_def)
  have "forecast_loop (\<lambda>s. s) sample_hourly 1 0 [] =
      Inr ([] @ map (forecast_point_at (\<lambda>s. s)
                  [''2024-05-01T00:00'', ''2024-05-01T01:00'', ''2024-05-01T02:00'']
                  [JNum 11.5, JNum 12.4, JNull] [JNum 9.5, JNum (- 0.5), JNum 10.5]
                  [JNum 80, JNum 81, JNum 82] [JNum 30, JNull])
             [1 + 0 ..< min (1 + 8)
                (length [''2024-05-01T00:00'', ''2024-05-01T01:00'', ''2024-05-01T02:00''])])"
    by (rule forecast_loop_window [OF t a b c d]) simp
  also have "\<dots> = Inr sample_forecast"
    by (simp add: upt_conv_Cons forecast_point_at_def index_js_def Math_round_def or_zero_def
        sample_forecast_def)
  finally show ?thesis .
qed

text \<open>
  C5. For an hourly series of length \<open>L\<close> and a current hour \<open>h\<close>, the forecast sequence has
  length \<open>min(8, max(0, L - h))\<close>; its \<open>k\<close>-th point is the sample of index \<open>h + k\<close> of the
  hourly arrays (its label is made from the time of that index, and its four values from the
  entries of that index of the four series), so the points are consecutive samples from
  \<open>h\<close> on, in order; and when \<open>L\<close> is zero the sequence is empty and nothing is thrown. The
  other series are read only when \<open>h < L\<close>.
\<close>

theorem forecast_window:
  assumes "time hb = Some ts"
    and "h < length ts \<Longrightarrow>
           temperature_2m_h hb \<noteq> None \<and> apparent_temperature_h hb \<noteq> None \<and>
           relative_humidity_2m_h hb \<noteq> None \<and> precipitation_probability hb \<noteq> None"
  shows "\<exists>pf. forecast_loop fmt hb h 0 [] = Inr pf \<and>
      int (length pf) = min 8 (max 0 (int (length ts) - int h)) \<and>
      (\<forall>k<length pf. h + k < length ts \<and> push_point fmt hb ts (h + k) = Inr (pf ! k) \<and>
         time_p (pf ! k) = fmt (ts ! (h + k)) \<and>
         (\<exists>tmp app hum pp.
            temperature_2m_h hb = Some tmp \<and> apparent_temperature_h hb = Some app \<and>
            relative_humidity_2m_h hb = Some hum \<and> precipitation_probability hb = Some pp \<and>
            temp_p (pf ! k) = Math_round (index_js tmp (h + k)) \<and>
            feels_like_p (pf ! k) = Math_round (index_js app (h + k)) \<and>
            humidity_p (pf ! k) = index_js hum (h + k) \<and>
            (h + k < length hum \<longrightarrow> humidity_p (pf ! k) = hum ! (h + k)) \<and>
            rain_p (pf ! k) = or_zero (index_js pp (h + k)))) \<and>
      (length ts = 0 \<longrightarrow> pf = [])"
proof (cases "h < length ts")
  case False
  with assms(1) have "forecast_loop fmt hb h 0 [] = Inr []"
    by (intro forecast_loop_exhausted) auto
  with False show ?thesis by simp
next
  case True
  with assms(2) obtain tmp app hum pp where arrays: "temperature_2m_h hb = Some tmp"
      "apparent_temperature_h hb = Some app" "relative_humidity_2m_h hb = Some hum"
      "precipitation_probability hb = Some pp"
    by auto
  let ?pf = "map (forecast_point_at fmt ts tmp app hum pp) [h ..< min (h + 8) (length ts)]"
  have run: "forecast_loop fmt hb h 0 [] = Inr ?pf"
    using forecast_loop_window [OF assms(1) arrays, of 0 fmt h "[]"] by simp
  have len: "int (length ?pf) = min 8 (max 0 (int (length ts) - int h))"
    using True by simp
  have in_range: "h + k < length ts" if "k < length ?pf" for k
    using that by simp
  have point: "?pf ! k = forecast_point_at fmt ts tmp app hum pp (h + k)" if "k < length ?pf" for k
  proof -
    from that have "k < min (h + 8) (length ts) - h" by simp
    then show ?thesis by (simp add: window_nth)
  qed
  have sample: "push_point fmt hb ts (h + k) = Inr (?pf ! k)" if "k < length ?pf" for k
    using point [OF that] by (simp only: push_point_present [OF arrays])
  have label: "time_p (?pf ! k) = fmt (ts ! (h + k))" if "k < length ?pf" for k
    unfolding point [OF that] by (simp add: forecast_point_at_def)
  have entries: "\<exists>tmp app hum pp.
            temperature_2m_h hb = Some tmp \<and> apparent_temperature_h hb = Some app \<and>
            relative_humidity_2m_h hb = Some hum \<and> precipitation_probability hb = Some pp \<and>
            temp_p (?pf ! k) = Math_round (index_js tmp (h + k)) \<and>
            feels_like_p (?pf ! k) = Math_round (index_js app (h + k)) \<and>
            humidity_p (?pf ! k) = index_js hum (h + k) \<and>
            (h + k < length hum \<longrightarrow> humidity_p (?pf ! k) = hum ! (h + k)) \<and>
            rain_p (?pf ! k) = or_zero (index_js pp (h + k))" if "k < length ?pf" for k
  proof -
    have "temp_p (?pf ! k) = Math_round (index_js tmp (h + k)) \<and>
          feels_like_p (?pf ! k) = Math_round (index_js app (h + k)) \<and>
          humidity_p (?pf ! k) = index_js hum (h + k) \<and>
          (h + k < length hum \<longrightarrow> humidity_p (?pf ! k) = hum ! (h + k)) \<and>
          rain_p (?pf ! k) = or_zero (index_js pp (h + k))"
      unfolding point [OF that] by (simp add: forecast_point_at_def index_js_def)
    with arrays show ?thesis by blast
  qed
  have pts: "\<forall>k<length ?pf. h + k < length ts \<and> push_point fmt hb ts (h + k) = Inr (?pf ! k) \<and>
         time_p (?pf ! k) = fmt (ts ! (h + k)) \<and>
         (\<exists>tmp app hum pp.
            temperature_2m_h hb = Some tmp \<and> apparent_temperature_h hb = Some app \<and>
            relative_humidity_2m_h hb = Some hum \<and> precipitation_probability hb = Some pp \<and>
            temp_p (?pf ! k) = Math_round (index_js tmp (h + k)) \<and>
            feels_like_p (?pf ! k) = Math_round (index_js app (h + k)) \<and>
            humidity_p (?pf ! k) = index_js hum (h + k) \<and>
            (h + k < length hum \<longrightarrow> humidity_p (?pf ! k) = hum ! (h + k)) \<and>
            rain_p (?pf ! k) = or_zero (index_js pp (h + k)))"
    using in_range sample label entries by blast
  have nonempty: "length ts \<noteq> 0" using True by (cases ts) auto
  from run len pts nonempty show ?thesis by blast
qed

theorem forecast_window_witness:
  "time sample_hourly = Some [''2024-05-01T00:00'', ''2024-05-01T01:00'', ''2024-05-01T02:00''] \<and>
   (\<exists>pf. forecast_loop (\<lambda>s. s) sample_hourly 1 0 [] = Inr pf \<and> length pf = 2 \<and>
      time_p (pf ! 0) = ''2024-05-01T01:00'' \<and> time_p (pf ! 1) = ''2024-05-01T02:00'' \<and>
      humidity_p (pf ! 0) = JNum 81 \<and> humidity_p (pf ! 1) = JNum 82) \<and>
   time empty_hourly = Some [] \<and>
   forecast_loop (\<lambda>s. s) empty_hourly 13 0 [] = Inr []"
proof -
  let ?ts = "[''2024-05-01T00:00'', ''2024-05-01T01:00'', ''2024-05-01T02:00'']"
  have t: "time sample_hourly = Some ?ts" by (simp add: sample_hourly_def)
  have a: "temperature_2m_h sample_hourly \<noteq> None \<and> apparent_temperature_h sample_hourly \<noteq> None \<and>
           relative_humidity_2m_h sample_hourly \<noteq> None \<and>
           precipitation_probability sample_hourly \<noteq> None"
    by (simp add: sample_hourly_def)
  have hum: "relative_humidity_2m_h sample_hourly = Some [JNum 80, JNum 81, JNum 82]"
    by (simp add: sample_hourly_def)
  from forecast_window [where fmt = "\<lambda>s. s" and h = 1 and hb = sample_hourly and ts = ?ts, OF t a]
  obtain pf where pf: "forecast_loop (\<lambda>s. s) sample_hourly 1 0 [] = Inr pf"
    and len: "int (length pf) = min 8 (max 0 (int (length ?ts) - int 1))"
    and pts: "\<forall>k<length pf. time_p (pf ! k) = ?ts ! (1 + k) \<and>
         (\<exists>hum. relative_humidity_2m_h sample_hourly = Some hum \<and>
            humidity_p (pf ! k) = index_js hum (1 + k))"
    by blast
  from len have l: "length pf = 2" by simp
  from pts l have p0: "time_p (pf ! 0) = ?ts ! (1 + 0) \<and>
         (\<exists>hum. relative_humidity_2m_h sample_hourly = Some hum \<and>
            humidity_p (pf ! 0) = index_js hum (1 + 0))"
    by simp
  from pts l have p1: "time_p (pf ! 1) = ?ts ! (1 + 1) \<and>
         (\<exists>hum. relative_humidity_2m_h sample_hourly = Some hum \<and>
            humidity_p (pf ! 1) = index_js hum (1 + 1))"
    by simp
  from p0 hum have v0: "time_p (pf ! 0) = ''2024-05-01T01:00'' \<and> humidity_p (pf ! 0) = JNum 81"
    by (auto simp add: index_js_def)
  from p1 hum have v1: "time_p (pf ! 1) = ''2024-05-01T02:00'' \<and> humidity_p (pf ! 1) = JNum 82"
    by (auto simp add: index_js_def)
  from pf l v0 v1
  have one: "\<exists>pf. forecast_loop (\<lambda>s. s) sample_hourly 1 0 [] = Inr pf \<and> length pf = 2 \<and>
      time_p (pf ! 0) = ''2024-05-01T01:00'' \<and> time_p (pf ! 1) = ''2024-05-01T02:00'' \<and>
      humidity_p (pf ! 0) = JNum 81 \<and> humidity_p (pf ! 1) = JNum 82"
    by blast
  have t0: "time empty_hourly = Some []" by (simp add: empty_hourly_def)
  have a0: "13 < length ([] :: string list) \<Longrightarrow>
           temperature_2m_h empty_hourly \<noteq> None \<and> apparent_temperature_h empty_hourly \<noteq> None \<and>
           relative_humidity_2m_h empty_hourly \<noteq> None \<and>
           precipitation_probability empty_hourly \<noteq> None"
    by simp
  from forecast_window [where fmt = "\<lambda>s. s" and h = 13 and hb = empty_hourly and ts = "[]", OF t0 a0]
  obtain pf0 where pf0: "forecast_loop (\<lambda>s. s) empty_hourly 13 0 [] = Inr pf0"
    and e: "length ([] :: string list) = 0 \<longrightarrow> pf0 = []"
    by blast
  from pf0 e have two: "forecast_loop (\<lambda>s. s) empty_hourly 13 0 [] = Inr []" by simp
  from t one t0 two show ?thesis by blast
qed

section \<open>The fields of a forecast point\<close>

lemma round_nearest:
  fixes x :: real
  shows "\<bar>of_int \<lfloor>x + 1 / 2\<rfloor> - x\<bar> \<le> 1 / 2"
  by linarith

text \<open>
  C6. In every forecast point the temperature and the feels-like temperature are the hourly
  values of the point's index rounded to the nearest integer; the humidity is the hourly
  value as it is; the rain probability is the hourly value as it is when that is a number,
  and 0 when it is missing (\<^verbatim>\<open>null\<close>, or no entry at the index).
\<close>

theorem forecast_point_fields:
  assumes "forecast_loop fmt hb h 0 [] = Inr pf" and "k < length pf"
  shows "\<exists>tmp app hum pp.
      temperature_2m_h hb = Some tmp \<and> apparent_temperature_h hb = Some app \<and>
      relative_humidity_2m_h hb = Some hum \<and> precipitation_probability hb = Some pp \<and>
      (\<forall>x. index_js tmp (h + k) = JNum x \<longrightarrow>
         (\<exists>n::int. temp_p (pf ! k) = Num (of_int n) \<and> \<bar>of_int n - x\<bar> \<le> 1 / 2)) \<and>
      (\<forall>x. index_js app (h + k) = JNum x \<longrightarrow>
         (\<exists>n::int. feels_like_p (pf ! k) = Num (of_int n) \<and> \<bar>of_int n - x\<bar> \<le> 1 / 2)) \<and>
      humidity_p (pf ! k) = index_js hum (h + k) \<and>
      (\<forall>x. index_js pp (h + k) = JNum x \<longrightarrow> rain_p (pf ! k) = JNum x) \<and>
      (index_js pp (h + k) = JNull \<or> index_js pp (h + k) = JUndefined
         \<longrightarrow> rain_p (pf ! k) = JNum 0)"
proof -
  from forecast_loop_Inr [OF assms(1)] obtain ts where ts: "time hb = Some ts"
    and shape: "if h < length ts
      then \<exists>tmp app hum pp. temperature_2m_h hb = Some tmp \<and> apparent_temperature_h hb = Some app \<and>
             relative_humidity_2m_h hb = Some hum \<and> precipitation_probability hb = Some pp \<and>
             pf = map (forecast_point_at fmt ts tmp app hum pp) [h ..< min (h + 8) (length ts)]
      else pf = []"
    by blast
  from shape assms(2) have lt: "h < length ts" by (auto split: if_splits)
  with shape obtain tmp app hum pp where arrays: "temperature_2m_h hb = Some tmp"
      "apparent_temperature_h hb = Some app" "relative_humidity_2m_h hb = Some hum"
      "precipitation_probability hb = Some pp"
    and pf: "pf = map (forecast_point_at fmt ts tmp app hum pp) [h ..< min (h + 8) (length ts)]"
    by auto
  from pf assms(2) have pk: "pf ! k = forecast_point_at fmt ts tmp app hum pp (h + k)"
    by (simp add: window_nth)
  have temp: "\<forall>x. index_js tmp (h + k) = JNum x \<longrightarrow>
         (\<exists>n::int. temp_p (pf ! k) = Num (of_int n) \<and> \<bar>of_int n - x\<bar> \<le> 1 / 2)"
    using round_nearest by (auto simp add: pk forecast_point_at_def Math_round_def)
  have feels: "\<forall>x. index_js app (h + k) = JNum x \<longrightarrow>
         (\<exists>n::int. feels_like_p (pf ! k) = Num (of_int n) \<and> \<bar>of_int n - x\<bar> \<le> 1 / 2)"
    using round_nearest by (auto simp add: pk forecast_point_at_def Math_round_def)
  have hum: "humidity_p (pf ! k) = index_js hum (h + k)"
    by (simp add: pk forecast_point_at_def)
  have rain: "\<forall>x. index_js pp (h + k) = JNum x \<longrightarrow> rain_p (pf ! k) = JNum x"
    by (simp add: pk forecast_point_at_def or_zero_def)
  have missing: "index_js pp (h + k) = JNull \<or> index_js pp (h + k) = JUndefined
         \<longrightarrow> rain_p (pf ! k) = JNum 0"
    by (auto simp add: pk forecast_point_at_def or_zero_def)
  from arrays temp feels hum rain missing show ?thesis by blast
qed

theorem forecast_point_fields_witness:
  "forecast_loop (\<lambda>s. s) sample_hourly 1 0 [] = Inr sample_forecast \<and>
   (1::nat) < length sample_forecast \<and>
   humidity_p (sample_forecast ! 1) = JNum 82 \<and>
   rain_p (sample_forecast ! 1) = JNum 0 \<and>
   (\<exists>n::int. feels_like_p (sample_forecast ! 1) = Num (of_int n) \<and>
      \<bar>of_int n - 10.5\<bar> \<le> (1 / 2 :: real))"
proof -
  have len: "(1::nat) < length sample_forecast" by (simp add: sample_forecast_def)
  from forecast_point_fields [OF sample_forecast_run len]
  obtain tmp app hum pp where
    arrays: "apparent_temperature_h sample_hourly = Some app"
      "relative_humidity_2m_h sample_hourly = Some hum"
      "precipitation_probability sample_hourly = Some pp"
    and feels: "\<forall>x. index_js app (1 + 1) = JNum x \<longrightarrow>
         (\<exists>n::int. feels_like_p (sample_forecast ! 1) = Num (of_int n) \<and> \<bar>of_int n - x\<bar> \<le> 1 / 2)"
    and hum: "humidity_p (sample_forecast ! 1) = index_js hum (1 + 1)"
    and missing: "index_js pp (1 + 1) = JNull \<or> index_js pp (1 + 1) = JUndefined
         \<longrightarrow> rain_p (sample_forecast ! 1) = JNum 0"
    by blast
  from arrays have app: "app = [JNum 9.5, JNum (- 0.5), JNum 10.5]"
    and h: "hum = [JNum 80, JNum 81, JNum 82]" and pp: "pp = [JNum 30, JNull]"
    by (simp_all add: sample_hourly_def)
  have ia: "index_js app (1 + 1) = JNum 10.5" by (simp add: app index_js_def)
  have ih: "index_js hum (1 + 1) = JNum 82" by (simp add: h index_js_def)
  have ip: "index_js pp (1 + 1) = JUndefined" by (simp add: pp index_js_def)
  from feels ia have f: "\<exists>n::int. feels_like_p (sample_forecast ! 1) = Num (of_int n) \<and>
      \<bar>of_int n - 10.5\<bar> \<le> (1 / 2 :: real)"
    by blast
  from hum ih have hv: "humidity_p (sample_forecast ! 1) = JNum 82" by simp
  from missing ip have r: "rain_p (sample_forecast ! 1) = JNum 0" by simp
  from sample_forecast_run len hv r f show ?thesis by blast
qed

section \<open>The wind speed of the view\<close>

text \<open>What the transformer puts into the fields of the view that the advisories read.\<close>

lemma transformedData_fields:
  "temp (transformedData bm cur) = temperature_2m cur"
  "humidity (transformedData bm cur) = relative_humidity_2m cur"
  "main (transformedData bm cur) = weather_main (getWeatherDescription (weather_code cur))"
  "speed (transformedData bm cur) = wind_speed_10m cur / 3.6"
  by (simp_all add: transformedData_def Let_def)



section \<open>Recommendations\<close>

lemma toLowerCase_categories:
  "toLowerCase ''Rain'' = ''rain''"
  "toLowerCase ''Clouds'' = ''clouds''"
  "toLowerCase ''Clear'' = ''clear''"
  by code_simp+

lemma category_lower_rain:
  assumes "m = ''Rain'' \<or> m = ''Clouds'' \<or> m = ''Clear''"
  shows "includes_str (toLowerCase m) ''rain'' \<longleftrightarrow> m = ''Rain''"
  using assms by (auto simp add: toLowerCase_categories)

lemma weather_main_categories:
  "weather_main d = ''Rain'' \<or> weather_main d = ''Clouds'' \<or> weather_main d = ''Clear''"
  by (simp add: weather_main_def)

text \<open>
  C7, as stated, fails: on a warm, dry, calm and clear day only the temperature advisory is
  emitted, one string and not two.
\<close>

theorem recommendations_count_counterexample:
  "getRecommendations (Some fair_view) = [outdoor] \<and>
   length (getRecommendations (Some fair_view)) = 1 \<and>
   \<not> 2 \<le> length (getRecommendations (Some fair_view))"
  by (simp add: getRecommendations_def fair_view_def toLowerCase_categories)

text \<open>
  C7, amended. For every weather view the generator emits between 1 and 4 advisories in a
  fixed order: exactly one temperature advisory (cold weather below 10, light jacket from 10
  to below 20, fair weather from 20 on), then the umbrella advisory exactly when the category
  is Rain, then the hydration advisory exactly when the humidity exceeds 70, then the wind
  advisory exactly when the wind speed of the view, which is in m/s, exceeds 10. On the view
  that the transformer builds from a current block, the wind advisory is therefore emitted
  exactly when the raw speed in km/h divided by 3.6 exceeds 10, that is, when the raw speed
  exceeds 36 km/h: the threshold is checked after the conversion.
\<close>

theorem getRecommendations_order:
  assumes "main w = ''Rain'' \<or> main w = ''Clouds'' \<or> main w = ''Clear''"
  shows "getRecommendations (Some w) =
           [if temp w < 10 then warm_jacket else if temp w < 20 then light_jacket else outdoor]
           @ (if main w = ''Rain'' then [umbrella] else [])
           @ (if humidity w > 70 then [hydrated] else [])
           @ (if speed w > 10 then [windy] else []) \<and>
         1 \<le> length (getRecommendations (Some w)) \<and>
         length (getRecommendations (Some w)) \<le> 4 \<and>
         (umbrella \<in> set (getRecommendations (Some w)) \<longleftrightarrow> main w = ''Rain'') \<and>
         (hydrated \<in> set (getRecommendations (Some w)) \<longleftrightarrow> humidity w > 70) \<and>
         (windy \<in> set (getRecommendations (Some w)) \<longleftrightarrow> speed w > 10) \<and>
         getRecommendations (Some (transformedData bm cur)) =
           [if temperature_2m cur < 10 then warm_jacket
            else if temperature_2m cur < 20 then light_jacket else outdoor]
           @ (if weather_main (getWeatherDescription (weather_code cur)) = ''Rain''
              then [umbrella] else [])
           @ (if relative_humidity_2m cur > 70 then [hydrated] else [])
           @ (if wind_speed_10m cur / 3.6 > 10 then [windy] else []) \<and>
         (windy \<in> set (getRecommendations (Some (transformedData bm cur))) \<longleftrightarrow>
            wind_speed_10m cur / 3.6 > 10) \<and>
         (windy \<in> set (getRecommendations (Some (transformedData bm cur))) \<longleftrightarrow>
            wind_speed_10m cur > 36)"
proof -
  have rule: "getRecommendations (Some v) =
           [if temp v < 10 then warm_jacket else if temp v < 20 then light_jacket else outdoor]
           @ (if main v = ''Rain'' then [umbrella] else [])
           @ (if humidity v > 70 then [hydrated] else [])
           @ (if speed v > 10 then [windy] else [])"
    if "main v = ''Rain'' \<or> main v = ''Clouds'' \<or> main v = ''Clear''" for v
    by (simp add: getRecommendations_def category_lower_rain [OF that])
  note eq = rule [OF assms]
  have len: "1 \<le> length (getRecommendations (Some w)) \<and> length (getRecommendations (Some w)) \<le> 4"
    unfolding eq by simp
  have u: "umbrella \<in> set (getRecommendations (Some w)) \<longleftrightarrow> main w = ''Rain''"
    unfolding eq
    by (simp add: umbrella_def warm_jacket_def light_jacket_def outdoor_def hydrated_def windy_def)
  have h: "hydrated \<in> set (getRecommendations (Some w)) \<longleftrightarrow> humidity w > 70"
    unfolding eq
    by (simp add: umbrella_def warm_jacket_def light_jacket_def outdoor_def hydrated_def windy_def)
  have v: "windy \<in> set (getRecommendations (Some w)) \<longleftrightarrow> speed w > 10"
    unfolding eq
    by (simp add: umbrella_def warm_jacket_def light_jacket_def outdoor_def hydrated_def windy_def)
  let ?v = "transformedData bm cur"
  have cat: "main ?v = ''Rain'' \<or> main ?v = ''Clouds'' \<or> main ?v = ''Clear''"
    unfolding transformedData_fields by (rule weather_main_categories)
  have built: "getRecommendations (Some ?v) =
           [if temperature_2m cur < 10 then warm_jacket
            else if temperature_2m cur < 20 then light_jacket else outdoor]
           @ (if weather_main (getWeatherDescription (weather_code cur)) = ''Rain''
              then [umbrella] else [])
           @ (if relative_humidity_2m cur > 70 then [hydrated] else [])
           @ (if wind_speed_10m cur / 3.6 > 10 then [windy] else [])"
    using rule [OF cat] unfolding transformedData_fields .
  have wind: "windy \<in> set (getRecommendations (Some ?v)) \<longleftrightarrow> wind_speed_10m cur / 3.6 > 10"
    unfolding built
    by (simp add: umbrella_def warm_jacket_def light_jacket_def outdoor_def hydrated_def windy_def)
  have raw: "wind_speed_10m cur / 3.6 > 10 \<longleftrightarrow> wind_speed_10m cur > 36"
    by auto
  from wind raw have wind36: "windy \<in> set (getRecommendations (Some ?v)) \<longleftrightarrow>
      wind_speed_10m cur > 36"
    by blast
  from eq len u h v built wind wind36 show ?thesis by blast
qed

theorem getRecommendations_order_witness:
  "main (transformedData (paris ! 2) sample_current) = ''Rain'' \<and>
   getRecommendations (Some (transformedData (paris ! 2) sample_current)) =
     [warm_jacket, umbrella, hydrated, windy] \<and>
   wind_speed_10m breezy_current = 20 \<and>
   windy \<notin> set (getRecommendations (Some (transformedData (paris ! 2) breezy_current))) \<and>
   getRecommendations (Some (transformedData (paris ! 2) breezy_current)) =
     [light_jacket, umbrella, hydrated]"
proof -
  let ?w = "transformedData (paris ! 2) sample_current"
  let ?b = "transformedData (paris ! 2) breezy_current"
  have m: "main ?w = ''Rain''"
    by (simp add: transformedData_def sample_current_def getWeatherDescription_def
        weatherCodes_def weather_main_def)
  have t: "temp ?w = 8.3" and hu: "humidity ?w = 80" and sp: "speed ?w = 40 / 3.6"
    by (simp_all add: transformedData_def sample_current_def Let_def)
  from m have cat: "main ?w = ''Rain'' \<or> main ?w = ''Clouds'' \<or> main ?w = ''Clear''" by simp
  note inst = getRecommendations_order [where bm = "paris ! 2" and cur = breezy_current, OF cat]
  from inst
  have "getRecommendations (Some ?w) =
           [if temp ?w < 10 then warm_jacket else if temp ?w < 20 then light_jacket else outdoor]
           @ (if main ?w = ''Rain'' then [umbrella] else [])
           @ (if humidity ?w > 70 then [hydrated] else [])
           @ (if speed ?w > 10 then [windy] else [])"
    by (rule conjunct1)
  then have one: "getRecommendations (Some ?w) = [warm_jacket, umbrella, hydrated, windy]"
    unfolding m t hu sp by simp
  have raw: "wind_speed_10m breezy_current = 20" by (simp add: breezy_current_def)
  have rain: "weather_main (getWeatherDescription (weather_code breezy_current)) = ''Rain''"
    by (simp add: breezy_current_def getWeatherDescription_def weatherCodes_def weather_main_def)
  from inst
  have "getRecommendations (Some ?b) =
           [if temperature_2m breezy_current < 10 then warm_jacket
            else if temperature_2m breezy_current < 20 then light_jacket else outdoor]
           @ (if weather_main (getWeatherDescription (weather_code breezy_current)) = ''Rain''
              then [umbrella] else [])
           @ (if relative_humidity_2m breezy_current > 70 then [hydrated] else [])
           @ (if wind_speed_10m breezy_current / 3.6 > 10 then [windy] else [])"
    by blast
  then have two: "getRecommendations (Some ?b) = [light_jacket, umbrella, hydrated]"
    unfolding rain by (simp add: breezy_current_def)
  from inst have "windy \<in> set (getRecommendations (Some ?b)) \<longleftrightarrow> wind_speed_10m breezy_current > 36"
    by blast
  with raw have three: "windy \<notin> set (getRecommendations (Some ?b))" by simp
  from m one raw three two show ?thesis by blast
qed

section \<open>Failures of the pipeline\<close>

text \<open>The forecast loop throws nothing but a TypeError.\<close>

lemma push_point_Inl:
  assumes "push_point fmt hb ts hour = Inl err"
  shows "err = TypeError"
  using assms by (auto simp add: push_point_def split: option.splits)

lemma forecast_loop_Inl:
  assumes "forecast_loop fmt hb h i acc = Inl err"
  shows "err = TypeError"
  using assms
proof (induction fmt hb h i acc rule: forecast_loop.induct)
  case (1 fmt hb h i acc)
  from "1.prems" show ?case
    by (subst (asm) forecast_loop.simps)
       (auto split: if_splits option.splits sum.splits dest: push_point_Inl "1.IH")
qed

lemma bestMatch_nonempty:
  assumes "rs \<noteq> []"
  shows "\<exists>bm. bestMatch rs = Some bm"
  using assms by (cases rs) (auto simp add: bestMatch_def split: option.splits)

lemma console_fetchWeather:
  "console (fetchWeather e city st) =
     (case snd (snd (try_block e city (st\<lparr>loading := True, error := []\<rparr>))) of
        None \<Rightarrow> [] | Some err \<Rightarrow> [err])"
  by (simp add: fetchWeather_def Let_def split_beta)

lemma requests_fetchWeather:
  "requests (fetchWeather e city st) =
     fst (snd (try_block e city (st\<lparr>loading := True, error := []\<rparr>)))"
  by (simp add: fetchWeather_def Let_def split_beta)

lemma thrown_city_not_found:
  "snd (snd (try_block e city st)) = Some (Error ''City not found'') \<longleftrightarrow>
     well_formed city \<and>
     (\<exists>ok gd. geocoding e city = Response ok gd \<and>
        (\<not> ok \<or> results gd = None \<or> results gd = Some []))"
  by (auto simp add: try_block_def Let_def
      split: response.splits option.splits sum.splits if_splits
      dest: forecast_loop_Inl)


lemma thrown_unable:
  "snd (snd (try_block e city st)) = Some (Error ''Unable to fetch weather data'') \<longleftrightarrow>
     well_formed city \<and>
     (\<exists>gd rs bm wd. geocoding e city = Response True gd \<and> results gd = Some rs \<and> rs \<noteq> [] \<and>
        bestMatch rs = Some bm \<and>
        weather_api e (latitude bm) (longitude bm) = Response False wd)"
  by (auto simp add: try_block_def Let_def
      split: response.splits option.splits sum.splits if_splits
      dest: forecast_loop_Inl)

lemma thrown_rejected:
  "snd (snd (try_block e city st)) = Some FetchRejected \<longleftrightarrow>
     well_formed city \<and>
     (geocoding e city = Rejected \<or>
      (\<exists>gd rs bm. geocoding e city = Response True gd \<and> results gd = Some rs \<and> rs \<noteq> [] \<and>
        bestMatch rs = Some bm \<and>
        weather_api e (latitude bm) (longitude bm) = Rejected))"
  by (auto simp add: try_block_def Let_def
      split: response.splits option.splits sum.splits if_splits
      dest: forecast_loop_Inl)

lemma requests_shape:
  "fst (snd (try_block e city st)) = [] \<or>
   fst (snd (try_block e city st)) = [GeoRequest city] \<or>
   (\<exists>lat lon. fst (snd (try_block e city st)) = [GeoRequest city, WeatherRequest lat lon])"
  by (auto simp add: try_block_def Let_def
      split: response.splits option.splits sum.splits if_splits)

lemma requests_city_not_found:
  assumes "snd (snd (try_block e city st)) = Some (Error ''City not found'')"
  shows "fst (snd (try_block e city st)) = [GeoRequest city]"
  using assms
  by (auto simp add: try_block_def Let_def
      split: response.splits option.splits sum.splits if_splits
      dest: forecast_loop_Inl)

lemma requests_unable:
  assumes "snd (snd (try_block e city st)) = Some (Error ''Unable to fetch weather data'')"
  shows "\<exists>lat lon. fst (snd (try_block e city st)) = [GeoRequest city, WeatherRequest lat lon]"
  using assms
  by (auto simp add: try_block_def Let_def
      split: response.splits option.splits sum.splits if_splits
      dest: forecast_loop_Inl)

lemma try_block_forecast:
  assumes "snd (snd (try_block e city st)) = Some err"
  shows "forecast (fst (try_block e city st)) = forecast st \<and>
         searchInput (fst (try_block e city st)) = searchInput st \<and>
         loading (fst (try_block e city st)) = loading st \<and>
         error (fst (try_block e city st)) = error st"
  using assms
  by (auto simp add: try_block_def Let_def
      split: response.splits option.splits sum.splits if_splits)

lemma try_block_unchanged:
  assumes "snd (snd (try_block e city st)) = Some err" and "err \<noteq> TypeError"
  shows "fst (try_block e city st) = st"
  using assms
  by (auto simp add: try_block_def Let_def
      split: response.splits option.splits sum.splits if_splits
      dest: forecast_loop_Inl)

lemma state_fetchWeather:
  "state (fetchWeather e city st) =
     (let r = try_block e city (st\<lparr>loading := True, error := []\<rparr>) in
      (case snd (snd r) of
         None \<Rightarrow> fst r
       | Some err \<Rightarrow> (fst r)\<lparr>error := failure_message\<rparr>)\<lparr>loading := False\<rparr>)"
  by (simp add: fetchWeather_def Let_def split_beta)

text \<open>
  C8, as stated, fails: when the transport of the geocoding call fails, what is thrown is the
  rejection of that \<^verbatim>\<open>fetch\<close>, not the city-not-found error; and likewise for the weather
  call and the weather-fetch error. The source throws its two errors only on a non-success
  status and on an empty candidate list.
\<close>

theorem transport_error_counterexample:
  "geocoding offline_env oslo = Rejected \<and>
   console (fetchWeather offline_env oslo st0) = [FetchRejected] \<and>
   console (fetchWeather offline_env oslo st0) \<noteq> [Error ''City not found''] \<and>
   weather_api weather_unreachable_env 48.85 2.35 = Rejected \<and>
   console (fetchWeather weather_unreachable_env oslo st0) = [FetchRejected] \<and>
   console (fetchWeather weather_unreachable_env oslo st0) \<noteq> [Error ''Unable to fetch weather data'']"
  by (simp add: fetchWeather_def try_block_def offline_env_def weather_unreachable_env_def
      weather_down_env_def oslo_def high_surrogate_def low_surrogate_def bestMatch_def paris_def)

text \<open>
  C8, amended. The pipeline throws the city-not-found error exactly when the geocoding
  response has a non-success status or carries no candidate (no list, or an empty one), and
  the weather-fetch error exactly when the geocoding gave a candidate and the weather
  response has a non-success status. A transport error of either call is thrown as the
  rejection of that call itself. Every failure is raised on the single attempt: the
  city-not-found error after exactly one geocoding request, the weather-fetch error after
  exactly one geocoding and one weather request, and no run sends more than one of each.
\<close>

theorem fetchWeather_thrown_errors:
  "(console (fetchWeather e city st) = [Error ''City not found''] \<longleftrightarrow>
      well_formed city \<and>
      (\<exists>ok gd. geocoding e city = Response ok gd \<and>
         (\<not> ok \<or> results gd = None \<or> results gd = Some []))) \<and>
   (console (fetchWeather e city st) = [Error ''Unable to fetch weather data''] \<longleftrightarrow>
      well_formed city \<and>
      (\<exists>gd rs bm wd. geocoding e city = Response True gd \<and> results gd = Some rs \<and> rs \<noteq> [] \<and>
         bestMatch rs = Some bm \<and>
         weather_api e (latitude bm) (longitude bm) = Response False wd)) \<and>
   (console (fetchWeather e city st) = [FetchRejected] \<longleftrightarrow>
      well_formed city \<and>
      (geocoding e city = Rejected \<or>
       (\<exists>gd rs bm. geocoding e city = Response True gd \<and> results gd = Some rs \<and> rs \<noteq> [] \<and>
          bestMatch rs = Some bm \<and>
          weather_api e (latitude bm) (longitude bm) = Rejected))) \<and>
   (console (fetchWeather e city st) = [Error ''City not found''] \<longrightarrow>
      requests (fetchWeather e city st) = [GeoRequest city]) \<and>
   (console (fetchWeather e city st) = [Error ''Unable to fetch weather data''] \<longrightarrow>
      (\<exists>lat lon. requests (fetchWeather e city st) = [GeoRequest city, WeatherRequest lat lon])) \<and>
   (requests (fetchWeather e city st) = [] \<or>
    requests (fetchWeather e city st) = [GeoRequest city] \<or>
    (\<exists>lat lon. requests (fetchWeather e city st) = [GeoRequest city, WeatherRequest lat lon]))"
proof -
  let ?st = "st\<lparr>loading := True, error := []\<rparr>"
  have c: "console (fetchWeather e city st) = [err] \<longleftrightarrow>
      snd (snd (try_block e city ?st)) = Some err" for err
    by (simp add: console_fetchWeather split: option.splits)
  have r: "requests (fetchWeather e city st) = fst (snd (try_block e city ?st))"
    by (rule requests_fetchWeather)
  show ?thesis
    unfolding c r
    using thrown_city_not_found [of e city ?st] thrown_unable [of e city ?st]
      thrown_rejected [of e city ?st] requests_city_not_found [of e city ?st]
      requests_unable [of e city ?st] requests_shape [of e city ?st]
    by blast
qed

theorem fetchWeather_thrown_errors_witness:
  "console (fetchWeather no_match_env oslo st0) = [Error ''City not found''] \<and>
   requests (fetchWeather no_match_env oslo st0) = [GeoRequest oslo] \<and>
   console (fetchWeather weather_down_env oslo st0) = [Error ''Unable to fetch weather data''] \<and>
   (\<exists>lat lon. requests (fetchWeather weather_down_env oslo st0) =
      [GeoRequest oslo, WeatherRequest lat lon])"
proof -
  have wf: "well_formed oslo"
    by (simp add: oslo_def high_surrogate_def low_surrogate_def)
  have g1: "\<exists>ok gd. geocoding no_match_env oslo = Response ok gd \<and>
         (\<not> ok \<or> results gd = None \<or> results gd = Some [])"
    by (auto simp add: no_match_env_def offline_env_def)
  have g2: "\<exists>gd rs bm wd. geocoding weather_down_env oslo = Response True gd \<and>
         results gd = Some rs \<and> rs \<noteq> [] \<and> bestMatch rs = Some bm \<and>
         weather_api weather_down_env (latitude bm) (longitude bm) = Response False wd"
    by (simp add: weather_down_env_def bestMatch_def paris_def)
  note nm = fetchWeather_thrown_errors [of no_match_env oslo st0]
  note wd = fetchWeather_thrown_errors [of weather_down_env oslo st0]
  from nm wf g1 have c1: "console (fetchWeather no_match_env oslo st0) = [Error ''City not found'']"
    by blast
  with nm have r1: "requests (fetchWeather no_match_env oslo st0) = [GeoRequest oslo]"
    by blast
  from wd wf g2
  have c2: "console (fetchWeather weather_down_env oslo st0) = [Error ''Unable to fetch weather data'']"
    by blast
  with wd have r2: "\<exists>lat lon. requests (fetchWeather weather_down_env oslo st0) =
      [GeoRequest oslo, WeatherRequest lat lon]"
    by blast
  from c1 r1 c2 r2 show ?thesis by blast
qed

section \<open>The state after a failure\<close>

text \<open>
  C9, as stated, fails: \<^verbatim>\<open>setWeatherData\<close> runs before the forecast is built, so a run that
  throws while building the forecast (here the body has no hourly block) has already
  replaced the weather view, while the forecast stays.
\<close>

theorem partial_replacement_counterexample:
  "console (fetchWeather no_hourly_env oslo shown_state) = [TypeError] \<and>
   weatherData shown_state = Some fair_view \<and>
   weatherData (state (fetchWeather no_hourly_env oslo shown_state)) =
     Some (transformedData (paris ! 2) sample_current) \<and>
   weatherData (state (fetchWeather no_hourly_env oslo shown_state)) \<noteq> weatherData shown_state \<and>
   forecast (state (fetchWeather no_hourly_env oslo shown_state)) = forecast shown_state"
proof -
  have differ: "transformedData (paris ! 2) sample_current \<noteq> fair_view"
    by (simp add: transformedData_def fair_view_def sample_current_def Let_def)
  have run: "console (fetchWeather no_hourly_env oslo shown_state) = [TypeError] \<and>
     weatherData (state (fetchWeather no_hourly_env oslo shown_state)) =
       Some (transformedData (paris ! 2) sample_current) \<and>
     forecast (state (fetchWeather no_hourly_env oslo shown_state)) = forecast shown_state"
    by (simp add: fetchWeather_def try_block_def no_hourly_env_def weather_down_env_def
        oslo_def high_surrogate_def low_surrogate_def bestMatch_def paris_def shown_state_def
        Let_def)
  have shown: "weatherData shown_state = Some fair_view"
    by (simp add: shown_state_def)
  from differ run shown show ?thesis by simp
qed

text \<open>
  C9, amended. For every invocation that fails, the forecast sequence remains as it was, the
  one generic message is set whatever was thrown, the loading flag is cleared and the
  search box keeps its text. When what was thrown is the city-not-found error, the
  weather-fetch error or a rejected fetch, that is, when the geocoding or the weather
  retrieval failed, the previous weather view and location label remain unchanged too.
\<close>

theorem fetchWeather_failure_state:
  assumes "console (fetchWeather e city st) = [err]"
  shows "forecast (state (fetchWeather e city st)) = forecast st \<and>
         error (state (fetchWeather e city st)) = failure_message \<and>
         \<not> loading (state (fetchWeather e city st)) \<and>
         searchInput (state (fetchWeather e city st)) = searchInput st \<and>
         (err \<noteq> TypeError \<longrightarrow>
            weatherData (state (fetchWeather e city st)) = weatherData st \<and>
            location (state (fetchWeather e city st)) = location st)"
proof -
  let ?st = "st\<lparr>loading := True, error := []\<rparr>"
  from assms have th: "snd (snd (try_block e city ?st)) = Some err"
    by (simp add: console_fetchWeather split: option.splits)
  then have st: "state (fetchWeather e city st) =
      (fst (try_block e city ?st))\<lparr>error := failure_message, loading := False\<rparr>"
    by (simp add: state_fetchWeather Let_def)
  from try_block_forecast [OF th]
  have frame: "forecast (state (fetchWeather e city st)) = forecast st \<and>
         error (state (fetchWeather e city st)) = failure_message \<and>
         \<not> loading (state (fetchWeather e city st)) \<and>
         searchInput (state (fetchWeather e city st)) = searchInput st"
    unfolding st by simp
  have view: "weatherData (state (fetchWeather e city st)) = weatherData st \<and>
            location (state (fetchWeather e city st)) = location st" if "err \<noteq> TypeError"
    unfolding st try_block_unchanged [OF th that] by simp
  from frame view show ?thesis by blast
qed

theorem fetchWeather_failure_state_witness:
  "console (fetchWeather weather_down_env oslo shown_state) = [Error ''Unable to fetch weather data''] \<and>
   weatherData (state (fetchWeather weather_down_env oslo shown_state)) = Some fair_view \<and>
   forecast (state (fetchWeather weather_down_env oslo shown_state)) = sample_forecast \<and>
   error (state (fetchWeather weather_down_env oslo shown_state)) = failure_message \<and>
   \<not> loading (state (fetchWeather weather_down_env oslo shown_state))"
proof -
  have c: "console (fetchWeather weather_down_env oslo shown_state) =
      [Error ''Unable to fetch weather data'']"
    by (simp add: fetchWeather_def try_block_def weather_down_env_def
        oslo_def high_surrogate_def low_surrogate_def bestMatch_def paris_def Let_def)
  have ne: "Error ''Unable to fetch weather data'' \<noteq> TypeError" by simp
  from fetchWeather_failure_state [OF c] ne
  have "forecast (state (fetchWeather weather_down_env oslo shown_state)) = forecast shown_state \<and>
      error (state (fetchWeather weather_down_env oslo shown_state)) = failure_message \<and>
      \<not> loading (state (fetchWeather weather_down_env oslo shown_state)) \<and>
      weatherData (state (fetchWeather weather_down_env oslo shown_state)) = weatherData shown_state"
    by blast
  with c show ?thesis by (simp add: shown_state_def)
qed

section \<open>Submitting the search box\<close>

lemma rev_split:
  "t = rev (dropWhile P (rev t)) @ rev (takeWhile P (rev t))"
proof -
  have "rev t = takeWhile P (rev t) @ dropWhile P (rev t)"
    by (rule takeWhile_dropWhile_id [symmetric])
  then have "rev (rev t) = rev (takeWhile P (rev t) @ dropWhile P (rev t))"
    by (rule arg_cong)
  then show ?thesis by (simp only: rev_rev_ident rev_append)
qed

lemma dropWhile_Nil_iff:
  "dropWhile P xs = [] \<longleftrightarrow> (\<forall>x\<in>set xs. P x)"
  by (rule dropWhile_eq_Nil_conv)

lemma dropWhile_fixed:
  "dropWhile P (dropWhile P xs) = dropWhile P xs"
  by (rule dropWhile_idem)

lemma trim_empty_iff:
  "trim s = [] \<longleftrightarrow> (\<forall>c\<in>set s. white_space c)"
proof -
  let ?t = "dropWhile white_space s"
  have "trim s = [] \<longleftrightarrow> dropWhile white_space (rev ?t) = []"
    by (simp only: trim_def rev_is_Nil_conv)
  also have "\<dots> \<longleftrightarrow> (\<forall>c\<in>set ?t. white_space c)"
    by (simp only: dropWhile_Nil_iff set_rev)
  also have "\<dots> \<longleftrightarrow> dropWhile white_space ?t = []"
    by (simp only: dropWhile_Nil_iff)
  also have "\<dots> \<longleftrightarrow> ?t = []"
    by (simp only: dropWhile_fixed)
  also have "\<dots> \<longleftrightarrow> (\<forall>c\<in>set s. white_space c)"
    by (rule dropWhile_Nil_iff)
  finally show ?thesis .
qed

lemma trim_decomp:
  "\<exists>pre suf. s = pre @ trim s @ suf \<and> (\<forall>c\<in>set pre. white_space c) \<and> (\<forall>c\<in>set suf. white_space c)"
proof -
  let ?t = "dropWhile white_space s"
  let ?pre = "takeWhile white_space s"
  let ?suf = "rev (takeWhile white_space (rev ?t))"
  have t: "?t = trim s @ ?suf"
    unfolding trim_def by (rule rev_split)
  have "s = ?pre @ ?t" by (rule takeWhile_dropWhile_id [symmetric])
  with t have s: "s = ?pre @ trim s @ ?suf" by (simp only:)
  have p: "\<forall>c\<in>set ?pre. white_space c"
    by (blast dest: set_takeWhileD)
  have "\<forall>c\<in>set (takeWhile white_space (rev ?t)). white_space c"
    by (blast dest: set_takeWhileD)
  then have q: "\<forall>c\<in>set ?suf. white_space c"
    by (simp only: set_rev)
  from s p q show ?thesis by blast
qed

lemma trim_ends:
  assumes "trim s \<noteq> []"
  shows "\<not> white_space (hd (trim s)) \<and> \<not> white_space (last (trim s))"
proof -
  let ?t = "dropWhile white_space s"
  let ?u = "dropWhile white_space (rev ?t)"
  from assms have u: "?u \<noteq> []" unfolding trim_def rev_is_Nil_conv .
  have t: "?t \<noteq> []"
  proof
    assume e: "?t = []"
    have "?u = []" unfolding e by simp
    with u show False by contradiction
  qed
  have "last (trim s) = hd ?u" unfolding trim_def by (rule last_rev)
  moreover have "\<not> white_space (hd ?u)" using u by (rule hd_dropWhile)
  ultimately have l: "\<not> white_space (last (trim s))" by simp
  have "?t = trim s @ rev (takeWhile white_space (rev ?t))"
    unfolding trim_def by (rule rev_split)
  then have "hd ?t = hd (trim s @ rev (takeWhile white_space (rev ?t)))" by (rule arg_cong)
  also have "\<dots> = hd (trim s)" using assms by (rule hd_append2)
  finally have "hd ?t = hd (trim s)" .
  moreover have "\<not> white_space (hd ?t)" using t by (rule hd_dropWhile)
  ultimately have h: "\<not> white_space (hd (trim s))" by simp
  from h l show ?thesis by blast
qed

text \<open>
  C10. When the search input is empty or all white space, submitting sends no request and
  leaves the whole state as it is. Otherwise the fetch runs on the trimmed input, which is
  the input without a leading and a trailing run of white space: it starts and ends with a
  character that is not white space.
\<close>

theorem handleSearch_trimmed:
  "((\<forall>c\<in>set (searchInput st). white_space c) \<longrightarrow>
      handleSearch e st = \<lparr> state = st, requests = [], console = [] \<rparr>) \<and>
   (\<not> (\<forall>c\<in>set (searchInput st). white_space c) \<longrightarrow>
      handleSearch e st = fetchWeather e (trim (searchInput st)) st \<and>
      trim (searchInput st) \<noteq> [] \<and>
      \<not> white_space (hd (trim (searchInput st))) \<and>
      \<not> white_space (last (trim (searchInput st)))) \<and>
   (\<exists>pre suf. searchInput st = pre @ trim (searchInput st) @ suf \<and>
      (\<forall>c\<in>set pre. white_space c) \<and> (\<forall>c\<in>set suf. white_space c))"
proof -
  have blank: "handleSearch e st = \<lparr> state = st, requests = [], console = [] \<rparr>"
    if "\<forall>c\<in>set (searchInput st). white_space c"
    using that trim_empty_iff [of "searchInput st"] by (simp add: handleSearch_def)
  have other: "handleSearch e st = fetchWeather e (trim (searchInput st)) st \<and>
      trim (searchInput st) \<noteq> [] \<and>
      \<not> white_space (hd (trim (searchInput st))) \<and>
      \<not> white_space (last (trim (searchInput st)))"
    if "\<not> (\<forall>c\<in>set (searchInput st). white_space c)"
  proof -
    from that trim_empty_iff [of "searchInput st"] have ne: "trim (searchInput st) \<noteq> []"
      by blast
    then have "handleSearch e st = fetchWeather e (trim (searchInput st)) st"
      by (simp add: handleSearch_def)
    with ne trim_ends [OF ne] show ?thesis by blast
  qed
  from blank other trim_decomp [of "searchInput st"] show ?thesis by blast
qed

theorem handleSearch_trimmed_witness:
  "list_all white_space (searchInput blank_state) \<and>
   handleSearch offline_env blank_state = \<lparr> state = blank_state, requests = [], console = [] \<rparr> \<and>
   \<not> list_all white_space (searchInput shown_state) \<and>
   trim (searchInput shown_state) = oslo \<and>
   handleSearch offline_env shown_state = fetchWeather offline_env oslo shown_state"
proof -
  have b: "list_all white_space (searchInput blank_state)"
    by (simp add: blank_state_def shown_state_def white_space_def)
  have n: "\<not> list_all white_space (searchInput shown_state)"
    by (simp add: shown_state_def padded_oslo_def white_space_def)
  have t: "trim (searchInput shown_state) = oslo"
    by (simp add: shown_state_def padded_oslo_def oslo_def trim_def white_space_def)
  note hb = handleSearch_trimmed [of blank_state offline_env]
  note hs = handleSearch_trimmed [of shown_state offline_env]
  from hb b have one: "handleSearch offline_env blank_state =
      \<lparr> state = blank_state, requests = [], console = [] \<rparr>"
    unfolding list_all_iff by blast
  from hs n have "handleSearch offline_env shown_state =
      fetchWeather offline_env (trim (searchInput shown_state)) shown_state"
    unfolding list_all_iff by blast
  with t have two: "handleSearch offline_env shown_state = fetchWeather offline_env oslo shown_state"
    by simp
  from b one n t two show ?thesis by blast
qed

end
